theory Spec2Isabelle
  imports Complex_Main "HOL-Library.Sublist"
begin

section \<open>JavaScript values\<close>

text \<open>
  The component \<^verbatim>\<open>App\<close> of \<^verbatim>\<open>src/App.jsx\<close> keeps its state in React state cells and
  talks to four endpoints with \<^verbatim>\<open>fetch\<close>. JavaScript is untyped, and what the service
  answers is not under the program's control, so the values the handlers compute with
  are modelled by one type of JavaScript values: the JSON values a response body can
  parse to, \<^verbatim>\<open>undefined\<close>, and \<^verbatim>\<open>File\<close> objects picked in a file input.
  A number is the rational it denotes (every finite double is one; the handlers only
  test numbers for truthiness). An object is the list of its own properties.
\<close>

datatype jsfile = File (fileName: string) (fileContent: string)

datatype jsval =
    JUndefined
  | JNull
  | JBool bool
  | JNum rat
  | JStr string
  | JFile jsfile
  | JArr "jsval list"
  | JObj "(string \<times> jsval) list"

text \<open>Truthiness: \<^verbatim>\<open>undefined\<close>, \<^verbatim>\<open>null\<close>, \<^verbatim>\<open>false\<close>, \<^verbatim>\<open>0\<close> and \<^verbatim>\<open>""\<close> are falsy,
  every object (arrays and files too) is truthy.\<close>

fun truthy :: "jsval \<Rightarrow> bool" where
  "truthy JUndefined = False"
| "truthy JNull = False"
| "truthy (JBool b) = b"
| "truthy (JNum n) = (n \<noteq> 0)"
| "truthy (JStr s) = (s \<noteq> [])"
| "truthy (JFile f) = True"
| "truthy (JArr xs) = True"
| "truthy (JObj fs) = True"

text \<open>The operator \<^verbatim>\<open>a || b\<close>.\<close>

definition js_or :: "jsval \<Rightarrow> jsval \<Rightarrow> jsval" where
  "js_or a b = (if truthy a then a else b)"

text \<open>
  Strings the JavaScript engine makes up are kept symbolic: \<open>StringOf v\<close> is the
  result of converting the non-string value \<open>v\<close> to a string (as \<^verbatim>\<open>new Error(v)\<close>
  does for its message), and \<open>CannotRead v p\<close> is the message of the \<^verbatim>\<open>TypeError\<close>
  raised by reading property \<open>p\<close> of \<open>v\<close> when \<open>v\<close> is \<^verbatim>\<open>null\<close> or \<^verbatim>\<open>undefined\<close>.
  \<open>Msg s\<close> is the string \<open>s\<close> itself.
\<close>

datatype message = Msg string | StringOf jsval | CannotRead jsval string

fun toMessage :: "jsval \<Rightarrow> message" where
  "toMessage (JStr s) = Msg s"
| "toMessage v = StringOf v"

text \<open>An exception, by the only thing the handlers read of it: \<^verbatim>\<open>e.message\<close>.\<close>

datatype exn = Exn (message: message)

text \<open>\<^verbatim>\<open>new Error(v)\<close>: the message is \<open>v\<close> converted to a string, and empty when
  \<open>v\<close> is \<^verbatim>\<open>undefined\<close>.\<close>

definition newError :: "jsval \<Rightarrow> exn" where
  "newError v = Exn (if v = JUndefined then Msg [] else toMessage v)"

text \<open>
  Reading a property \<^verbatim>\<open>data.p\<close> of a parsed body, for the names the handlers read
  (\<^verbatim>\<open>error\<close>, \<^verbatim>\<open>result\<close>, \<^verbatim>\<open>status\<close>, which no built-in prototype defines): it throws
  on \<^verbatim>\<open>null\<close> and \<^verbatim>\<open>undefined\<close>, gives the property of an object when it has one,
  and \<^verbatim>\<open>undefined\<close> otherwise.
\<close>

fun getProp :: "jsval \<Rightarrow> string \<Rightarrow> exn + jsval" where
  "getProp JUndefined p = Inl (Exn (CannotRead JUndefined p))"
| "getProp JNull p = Inl (Exn (CannotRead JNull p))"
| "getProp (JObj fs) p = Inr (case map_of fs p of None \<Rightarrow> JUndefined | Some v \<Rightarrow> v)"
| "getProp v p = Inr JUndefined"

section \<open>Requests and responses\<close>

text \<open>
  What a \<^verbatim>\<open>FormData\<close> holds for a value given to \<^verbatim>\<open>append\<close>: a \<^verbatim>\<open>File\<close> is kept as the
  file it is, and every other value is converted to a string (a string stays the string
  it is; the string made from a value that is not a string is the symbolic
  \<open>StringOf\<close> of it).
\<close>

datatype formval = FormString message | FormFile jsfile

fun formValue :: "jsval \<Rightarrow> formval" where
  "formValue (JFile f) = FormFile f"
| "formValue v = FormString (toMessage v)"

text \<open>
  A request is its URL and its body (every request of the program is a POST). A
  \<^verbatim>\<open>FormData\<close> body is the list of its entries in the order of the \<^verbatim>\<open>append\<close> calls, each
  with the value the \<^verbatim>\<open>FormData\<close> holds for it. A JSON body is the list of the members
  \<^verbatim>\<open>JSON.stringify\<close> writes.
\<close>

datatype body = FormData "(string \<times> formval) list" | JsonBody "(string \<times> jsval) list"

datatype request = Request (url: string) (reqBody: body)

fun formEntries :: "body \<Rightarrow> (string \<times> formval) list" where
  "formEntries (FormData es) = es"
| "formEntries (JsonBody ms) = []"

fun jsonMembers :: "body \<Rightarrow> (string \<times> jsval) list" where
  "jsonMembers (FormData es) = []"
| "jsonMembers (JsonBody ms) = ms"

text \<open>The value of a form field of a request, and of a member of its JSON body.\<close>

definition field :: "string \<Rightarrow> request \<Rightarrow> formval option" where
  "field k req = map_of (formEntries (reqBody req)) k"

definition jsonMember :: "string \<Rightarrow> request \<Rightarrow> jsval option" where
  "jsonMember k req = map_of (jsonMembers (reqBody req)) k"

text \<open>
  What the service answers is an input of the model. A response has its HTTP status
  code and what \<^verbatim>\<open>res.json()\<close> settles with: the parsed body, or the exception of a
  body that is not JSON. \<^verbatim>\<open>res.ok\<close> holds for the codes 200 to 299. A \<^verbatim>\<open>fetch\<close> is
  rejected with an exception (no response) or resolved with a response.
\<close>

datatype response = Response (statusCode: nat) (jsonBody: "exn + jsval")

definition ok :: "response \<Rightarrow> bool" where
  "ok res = (200 \<le> statusCode res \<and> statusCode res \<le> 299)"

datatype outcome = Rejected exn | Resolved response

text \<open>The two awaits \<^verbatim>\<open>res = await fetch(...)\<close> and \<^verbatim>\<open>data = await res.json()\<close>: the first
  exception is thrown, otherwise the response and the parsed body are at hand.\<close>

fun awaitJson :: "outcome \<Rightarrow> exn + (response \<times> jsval)" where
  "awaitJson (Rejected e) = Inl e"
| "awaitJson (Resolved res) =
     (case jsonBody res of Inl e \<Rightarrow> Inl e | Inr data \<Rightarrow> Inr (res, data))"

text \<open>\<^verbatim>\<open>JSON.stringify\<close> of an object literal leaves out the members whose value is
  \<^verbatim>\<open>undefined\<close> (and writes \<^verbatim>\<open>null\<close> for a member that is \<^verbatim>\<open>null\<close>).\<close>

definition JSON_stringify :: "(string \<times> jsval) list \<Rightarrow> body" where
  "JSON_stringify obj = JsonBody (filter (\<lambda>(k, v). v \<noteq> JUndefined) obj)"

text \<open>\<^verbatim>\<open>buildFormData\<close>: the loop over \<^verbatim>\<open>Object.entries(fields)\<close> calls
  \<^verbatim>\<open>formData.append(k, v)\<close> for each entry whose value is neither \<^verbatim>\<open>undefined\<close> nor
  \<^verbatim>\<open>null\<close>; the \<^verbatim>\<open>FormData\<close> then holds \<open>formValue v\<close> under \<open>k\<close>.\<close>

definition buildFormData :: "(string \<times> jsval) list \<Rightarrow> body" where
  "buildFormData obj =
     FormData (fold (\<lambda>(k, v) formData.
        if v \<noteq> JUndefined \<and> v \<noteq> JNull then formData @ [(k, formValue v)] else formData)
        obj [])"

text \<open>\<^verbatim>\<open>postFormData\<close>, from the point where the \<^verbatim>\<open>fetch\<close> of \<open>url\<close> has settled with
  \<open>out\<close>: the body is parsed first, then the status is looked at.\<close>

definition postFormData :: "string \<Rightarrow> outcome \<Rightarrow> exn + jsval" where
  "postFormData u out =
     (case awaitJson out of
        Inl e \<Rightarrow> Inl e
      | Inr (res, data) \<Rightarrow>
          if \<not> ok res then
            (case getProp data ''error'' of
               Inl e \<Rightarrow> Inl e
             | Inr v \<Rightarrow> Inl (newError (js_or v (JStr (''Request failed: '' @ u)))))
          else Inr data)"

section \<open>The state of the component\<close>

definition MODELS :: "string list" where
  "MODELS = [''gpt-4o-mini'', ''gpt-4.1-mini'', ''gemini-2.5-flash'', ''gemini-3-flash-preview'']"

text \<open>
  The state cells the four request handlers read or write (theme, language, key
  visibility and the painter picker are left out: no handler below touches them).
  The text cells are set from text inputs only and hold strings; a file cell holds
  a \<^verbatim>\<open>File\<close> or \<^verbatim>\<open>null\<close>; \<^verbatim>\<open>status\<close> and the three result cells are set from response
  bodies and hold whatever value those give.
\<close>

record app_state =
  openaiKey :: string
  geminiKey :: string
  status :: jsval
  error :: message
  submissionText :: string
  submissionFile :: "jsfile option"
  submissionModel :: string
  submissionResult :: jsval
  checklistText :: string
  checklistFile :: "jsfile option"
  checklistModel :: string
  checklistResult :: jsval
  reviewSubmission :: string
  reviewChecklist :: string
  reviewModel :: string
  reviewResult :: jsval

definition initial_state :: app_state where
  "initial_state = \<lparr>
     openaiKey = [], geminiKey = [],
     status = JStr ''Idle'', error = Msg [],
     submissionText = [], submissionFile = None, submissionModel = MODELS ! 0,
     submissionResult = JStr [],
     checklistText = [], checklistFile = None, checklistModel = MODELS ! 0,
     checklistResult = JStr [],
     reviewSubmission = [], reviewChecklist = [], reviewModel = MODELS ! 0,
     reviewResult = JStr [] \<rparr>"

text \<open>A file cell as a value: \<^verbatim>\<open>null\<close> when no file is picked.\<close>

fun fileVal :: "jsfile option \<Rightarrow> jsval" where
  "fileVal None = JNull"
| "fileVal (Some f) = JFile f"

text \<open>The \<^verbatim>\<open>catch\<close> block every handler shares.\<close>

definition onCatch :: "exn \<Rightarrow> app_state \<Rightarrow> app_state" where
  "onCatch e s = s\<lparr>error := message e, status := JStr ''Error''\<rparr>"

section \<open>The handlers\<close>

text \<open>
  An async handler runs in two parts. The first runs at the click, up to the
  \<^verbatim>\<open>fetch\<close>: it sets the status, clears the error and builds the request from the
  state the handler sees. The second runs when the awaited promises have settled: it
  writes the result or the error. Other events can come in between.
\<close>

definition handleSaveKeys_start :: "app_state \<Rightarrow> app_state \<times> request" where
  "handleSaveKeys_start s =
     (s\<lparr>status := JStr ''Saving keys'', error := Msg []\<rparr>,
      Request ''/set_api_keys''
        (JSON_stringify
           [(''openai'', js_or (JStr (openaiKey s)) JUndefined),
            (''gemini'', js_or (JStr (geminiKey s)) JUndefined)]))"

definition handleSaveKeys_resume :: "outcome \<Rightarrow> app_state \<Rightarrow> app_state" where
  "handleSaveKeys_resume out s =
     (case awaitJson out of
        Inl e \<Rightarrow> onCatch e s
      | Inr (res, data) \<Rightarrow>
          if \<not> ok res then
            (case getProp data ''error'' of
               Inl e \<Rightarrow> onCatch e s
             | Inr v \<Rightarrow> onCatch (newError (js_or v (JStr ''Failed to save keys''))) s)
          else
            (case getProp data ''status'' of
               Inl e \<Rightarrow> onCatch e s
             | Inr v \<Rightarrow> s\<lparr>status := js_or v (JStr ''saved'')\<rparr>))"

definition handleTransformSubmission_start :: "app_state \<Rightarrow> app_state \<times> request" where
  "handleTransformSubmission_start s =
     (s\<lparr>status := JStr ''Transforming submission'', error := Msg []\<rparr>,
      Request ''/transform_submission''
        (buildFormData
           [(''pasted'', JStr (submissionText s)),
            (''model'', JStr (submissionModel s)),
            (''file'', js_or (fileVal (submissionFile s)) JUndefined)]))"

definition handleTransformSubmission_resume :: "outcome \<Rightarrow> app_state \<Rightarrow> app_state" where
  "handleTransformSubmission_resume out s =
     (case postFormData ''/transform_submission'' out of
        Inl e \<Rightarrow> onCatch e s
      | Inr data \<Rightarrow>
          (case getProp data ''result'' of
             Inl e \<Rightarrow> onCatch e s
           | Inr v \<Rightarrow> s\<lparr>submissionResult := js_or v (JStr []), status := JStr ''Idle''\<rparr>))"

definition handleTransformChecklist_start :: "app_state \<Rightarrow> app_state \<times> request" where
  "handleTransformChecklist_start s =
     (s\<lparr>status := JStr ''Transforming checklist'', error := Msg []\<rparr>,
      Request ''/transform_checklist''
        (buildFormData
           [(''pasted'', JStr (checklistText s)),
            (''model'', JStr (checklistModel s)),
            (''file'', js_or (fileVal (checklistFile s)) JUndefined)]))"

definition handleTransformChecklist_resume :: "outcome \<Rightarrow> app_state \<Rightarrow> app_state" where
  "handleTransformChecklist_resume out s =
     (case postFormData ''/transform_checklist'' out of
        Inl e \<Rightarrow> onCatch e s
      | Inr data \<Rightarrow>
          (case getProp data ''result'' of
             Inl e \<Rightarrow> onCatch e s
           | Inr v \<Rightarrow> s\<lparr>checklistResult := js_or v (JStr []), status := JStr ''Idle''\<rparr>))"

definition handleRunReview_start :: "app_state \<Rightarrow> app_state \<times> request" where
  "handleRunReview_start s =
     (let submission = js_or (JStr (reviewSubmission s)) (submissionResult s);
          checklist = js_or (JStr (reviewChecklist s)) (checklistResult s)
      in (s\<lparr>status := JStr ''Running review'', error := Msg []\<rparr>,
          Request ''/run_review''
            (buildFormData
               [(''submission'', submission),
                (''checklist'', checklist),
                (''model'', JStr (reviewModel s))])))"

definition handleRunReview_resume :: "outcome \<Rightarrow> app_state \<Rightarrow> app_state" where
  "handleRunReview_resume out s =
     (case postFormData ''/run_review'' out of
        Inl e \<Rightarrow> onCatch e s
      | Inr data \<Rightarrow>
          (case getProp data ''result'' of
             Inl e \<Rightarrow> onCatch e s
           | Inr v \<Rightarrow> s\<lparr>reviewResult := js_or v (JStr []), status := JStr ''Idle''\<rparr>))"

section \<open>Sequences of events\<close>

text \<open>
  The page is single-threaded: events run one at a time. An event is a click on one
  of the four buttons, an edit of an input, or the settling of a call that is in
  flight. Nothing stops a click while a call is in flight, so the configuration is
  the state together with the list of calls in flight, oldest first; \<open>Settle i out\<close>
  settles the \<open>i\<close>-th of them with \<open>out\<close> and runs the rest of its handler
  (it is no event when there is no such call). A handler started by a click sees the
  state as it is at the click.
\<close>

datatype handler =
    HandleSaveKeys
  | HandleTransformSubmission
  | HandleTransformChecklist
  | HandleRunReview

datatype event =
    Click handler
  | Settle nat outcome
  | SetOpenaiKey string
  | SetGeminiKey string
  | SetSubmissionText string
  | SetSubmissionFile "jsfile option"
  | SetSubmissionModel string
  | SetChecklistText string
  | SetChecklistFile "jsfile option"
  | SetChecklistModel string
  | SetReviewSubmission string
  | SetReviewChecklist string
  | SetReviewModel string

fun start :: "handler \<Rightarrow> app_state \<Rightarrow> app_state \<times> request" where
  "start HandleSaveKeys s = handleSaveKeys_start s"
| "start HandleTransformSubmission s = handleTransformSubmission_start s"
| "start HandleTransformChecklist s = handleTransformChecklist_start s"
| "start HandleRunReview s = handleRunReview_start s"

fun resume :: "handler \<Rightarrow> outcome \<Rightarrow> app_state \<Rightarrow> app_state" where
  "resume HandleSaveKeys out s = handleSaveKeys_resume out s"
| "resume HandleTransformSubmission out s = handleTransformSubmission_resume out s"
| "resume HandleTransformChecklist out s = handleTransformChecklist_resume out s"
| "resume HandleRunReview out s = handleRunReview_resume out s"

type_synonym config = "app_state \<times> (handler \<times> request) list"

fun step :: "event \<Rightarrow> config \<Rightarrow> config" where
  "step (Click h) (s, fl) = (fst (start h s), fl @ [(h, snd (start h s))])"
| "step (Settle i out) (s, fl) =
     (if i < length fl then (resume (fst (fl ! i)) out s, take i fl @ drop (Suc i) fl)
      else (s, fl))"
| "step (SetOpenaiKey v) (s, fl) = (s\<lparr>openaiKey := v\<rparr>, fl)"
| "step (SetGeminiKey v) (s, fl) = (s\<lparr>geminiKey := v\<rparr>, fl)"
| "step (SetSubmissionText v) (s, fl) = (s\<lparr>submissionText := v\<rparr>, fl)"
| "step (SetSubmissionFile v) (s, fl) = (s\<lparr>submissionFile := v\<rparr>, fl)"
| "step (SetSubmissionModel v) (s, fl) = (s\<lparr>submissionModel := v\<rparr>, fl)"
| "step (SetChecklistText v) (s, fl) = (s\<lparr>checklistText := v\<rparr>, fl)"
| "step (SetChecklistFile v) (s, fl) = (s\<lparr>checklistFile := v\<rparr>, fl)"
| "step (SetChecklistModel v) (s, fl) = (s\<lparr>checklistModel := v\<rparr>, fl)"
| "step (SetReviewSubmission v) (s, fl) = (s\<lparr>reviewSubmission := v\<rparr>, fl)"
| "step (SetReviewChecklist v) (s, fl) = (s\<lparr>reviewChecklist := v\<rparr>, fl)"
| "step (SetReviewModel v) (s, fl) = (s\<lparr>reviewModel := v\<rparr>, fl)"

fun run :: "config \<Rightarrow> event list \<Rightarrow> config" where
  "run c [] = c"
| "run c (ev # evs) = run (step ev c) evs"

definition initial_config :: config where
  "initial_config = (initial_state, [])"

section \<open>Predicates used in the statements\<close>

text \<open>A value is nullish when it is \<^verbatim>\<open>undefined\<close> or \<^verbatim>\<open>null\<close>.\<close>

definition nullish :: "jsval \<Rightarrow> bool" where
  "nullish v = (v = JUndefined \<or> v = JNull)"

definition slotsDefined :: "app_state \<Rightarrow> bool" where
  "slotsDefined s =
     (\<not> nullish (submissionResult s) \<and> \<not> nullish (checklistResult s) \<and>
      \<not> nullish (reviewResult s))"



section \<open>Basic facts\<close>

lemmas eval_defs = initial_config_def initial_state_def MODELS_def
  handleSaveKeys_start_def handleTransformSubmission_start_def
  handleTransformChecklist_start_def handleRunReview_start_def
  handleSaveKeys_resume_def handleTransformSubmission_resume_def
  handleTransformChecklist_resume_def handleRunReview_resume_def
  postFormData_def buildFormData_def JSON_stringify_def onCatch_def newError_def
  js_or_def ok_def field_def jsonMember_def Let_def

lemma fold_append_filter:
  "fold (\<lambda>(k, v) formData. if P v then formData @ [(k, f v)] else formData) obj acc
     = acc @ map (\<lambda>(k, v). (k, f v)) (filter (\<lambda>(k, v). P v) obj)"
  by (induction obj arbitrary: acc) (auto split: prod.splits)

lemma buildFormData_filter:
  "buildFormData obj
     = FormData (map (\<lambda>(k, v). (k, formValue v))
         (filter (\<lambda>(k, v). v \<noteq> JUndefined \<and> v \<noteq> JNull) obj))"
  unfolding buildFormData_def
  using fold_append_filter [of "\<lambda>v. v \<noteq> JUndefined \<and> v \<noteq> JNull" formValue obj "[]"]
  by simp

lemma js_or_str_defined: "\<not> nullish (js_or a (JStr d))"
  by (cases a) (auto simp: js_or_def nullish_def)

lemma onCatch_simps [simp]:
  "submissionResult (onCatch e s) = submissionResult s"
  "checklistResult (onCatch e s) = checklistResult s"
  "reviewResult (onCatch e s) = reviewResult s"
  "status (onCatch e s) = JStr ''Error''"
  "error (onCatch e s) = message e"
  by (simp_all add: onCatch_def)

subsection \<open>No result cell is ever nullish\<close>

lemma resume_slotsDefined: "slotsDefined s \<Longrightarrow> slotsDefined (resume h out s)"
  by (cases h)
     (auto simp: slotsDefined_def handleSaveKeys_resume_def handleTransformSubmission_resume_def
        handleTransformChecklist_resume_def handleRunReview_resume_def js_or_str_defined
        split: sum.splits prod.splits)

lemma start_slotsDefined: "slotsDefined s \<Longrightarrow> slotsDefined (fst (start h s))"
  by (cases h)
     (auto simp: slotsDefined_def handleSaveKeys_start_def handleTransformSubmission_start_def
        handleTransformChecklist_start_def handleRunReview_start_def Let_def)

lemma step_slotsDefined: "slotsDefined (fst c) \<Longrightarrow> slotsDefined (fst (step ev c))"
proof (cases c)
  case (Pair s fl)
  assume "slotsDefined (fst c)"
  with Pair have s: "slotsDefined s" by simp
  show ?thesis
  proof (cases ev)
    case (Click h)
    with Pair s show ?thesis by (simp add: start_slotsDefined)
  next
    case (Settle i out)
    with Pair s show ?thesis by (simp add: resume_slotsDefined)
  qed (use Pair s in \<open>simp_all add: slotsDefined_def\<close>)
qed

lemma run_slotsDefined: "slotsDefined (fst c) \<Longrightarrow> slotsDefined (fst (run c evs))"
  by (induction evs arbitrary: c) (simp_all add: step_slotsDefined)

lemma initial_slotsDefined: "slotsDefined (fst initial_config)"
  by (simp add: initial_config_def initial_state_def slotsDefined_def nullish_def)

section \<open>The review request falls back to the stored results\<close>

text \<open>
  C1 (as amended). In every state the component can reach, the request a click on Run
  Review puts in flight goes to \<^verbatim>\<open>/run_review\<close>, and its \<^verbatim>\<open>submission\<close> field is what
  \<^verbatim>\<open>append\<close> makes of the review stage's own text when that is not empty, and of the
  stored \<^verbatim>\<open>submissionResult\<close> when it is: the review's text itself in the first case,
  the stored result itself when that is a string, and otherwise the stored result
  converted to a string. The \<^verbatim>\<open>checklist\<close> field is the same with the review's checklist
  text and the stored \<^verbatim>\<open>checklistResult\<close>.
\<close>

theorem review_request_fallback:
  assumes "run initial_config evs = (s, fl)"
  shows "url (snd (start HandleRunReview s)) = ''/run_review'' \<and>
         field ''submission'' (snd (start HandleRunReview s))
           = Some (formValue (if reviewSubmission s \<noteq> [] then JStr (reviewSubmission s)
                              else submissionResult s)) \<and>
         field ''checklist'' (snd (start HandleRunReview s))
           = Some (formValue (if reviewChecklist s \<noteq> [] then JStr (reviewChecklist s)
                              else checklistResult s)) \<and>
         (reviewSubmission s \<noteq> [] \<longrightarrow>
            field ''submission'' (snd (start HandleRunReview s))
              = Some (FormString (Msg (reviewSubmission s)))) \<and>
         (reviewSubmission s = [] \<and> submissionResult s = JStr a \<longrightarrow>
            field ''submission'' (snd (start HandleRunReview s)) = Some (FormString (Msg a))) \<and>
         (reviewChecklist s \<noteq> [] \<longrightarrow>
            field ''checklist'' (snd (start HandleRunReview s))
              = Some (FormString (Msg (reviewChecklist s)))) \<and>
         (reviewChecklist s = [] \<and> checklistResult s = JStr b \<longrightarrow>
            field ''checklist'' (snd (start HandleRunReview s)) = Some (FormString (Msg b)))"
proof -
  have "slotsDefined (fst (run initial_config evs))"
    by (rule run_slotsDefined [OF initial_slotsDefined])
  with assms have d: "slotsDefined s" by simp
  then show ?thesis
    by (auto simp: handleRunReview_start_def Let_def buildFormData_filter field_def js_or_def
        slotsDefined_def nullish_def)
qed

text \<open>
  With the results \<^verbatim>\<open>"A"\<close> and \<^verbatim>\<open>"B"\<close> stored by the two transforms and nothing typed
  into the review fields, the request carries \<^verbatim>\<open>submission="A"\<close> and \<^verbatim>\<open>checklist="B"\<close>;
  with \<^verbatim>\<open>"X"\<close> typed into the review's submission field it carries \<^verbatim>\<open>submission="X"\<close>.
\<close>

theorem review_request_fallback_witness:
  "field ''submission'' (snd (start HandleRunReview (fst (run initial_config
      [Click HandleTransformSubmission,
       Settle 0 (Resolved (Response 200 (Inr (JObj [(''result'', JStr ''A'')])))),
       Click HandleTransformChecklist,
       Settle 0 (Resolved (Response 200 (Inr (JObj [(''result'', JStr ''B'')]))))]))))
     = Some (FormString (Msg ''A'')) \<and>
   field ''checklist'' (snd (start HandleRunReview (fst (run initial_config
      [Click HandleTransformSubmission,
       Settle 0 (Resolved (Response 200 (Inr (JObj [(''result'', JStr ''A'')])))),
       Click HandleTransformChecklist,
       Settle 0 (Resolved (Response 200 (Inr (JObj [(''result'', JStr ''B'')]))))]))))
     = Some (FormString (Msg ''B'')) \<and>
   field ''submission'' (snd (start HandleRunReview (fst (run initial_config
      [Click HandleTransformSubmission,
       Settle 0 (Resolved (Response 200 (Inr (JObj [(''result'', JStr ''A'')])))),
       SetReviewSubmission ''X'']))))
     = Some (FormString (Msg ''X''))"
  using review_request_fallback [OF surjective_pairing, of
      "[Click HandleTransformSubmission,
       Settle 0 (Resolved (Response 200 (Inr (JObj [(''result'', JStr ''A'')])))),
       Click HandleTransformChecklist,
       Settle 0 (Resolved (Response 200 (Inr (JObj [(''result'', JStr ''B'')]))))]"]
    review_request_fallback [OF surjective_pairing, of
      "[Click HandleTransformSubmission,
       Settle 0 (Resolved (Response 200 (Inr (JObj [(''result'', JStr ''A'')])))),
       SetReviewSubmission ''X'']"]
  by (simp add: eval_defs)

text \<open>
  The claim as first stated has the field equal the stored \<^verbatim>\<open>submissionResult\<close>
  whenever the review's own text is empty. After a transform answered by HTTP 200 with
  \<^verbatim>\<open>{result: 42}\<close> the stored result is the number 42, the review's text is empty, and
  the \<^verbatim>\<open>submission\<close> field of the review request is a string: the number converted by
  \<^verbatim>\<open>append\<close>, not the stored number.
\<close>

theorem review_field_converted_counterexample:
  "submissionResult (fst (run initial_config
      [Click HandleTransformSubmission,
       Settle 0 (Resolved (Response 200 (Inr (JObj [(''result'', JNum 42)]))))])) = JNum 42 \<and>
   reviewSubmission (fst (run initial_config
      [Click HandleTransformSubmission,
       Settle 0 (Resolved (Response 200 (Inr (JObj [(''result'', JNum 42)]))))])) = [] \<and>
   field ''submission'' (snd (start HandleRunReview (fst (run initial_config
      [Click HandleTransformSubmission,
       Settle 0 (Resolved (Response 200 (Inr (JObj [(''result'', JNum 42)]))))]))))
     = Some (FormString (StringOf (JNum 42)))"
  by (simp add: eval_defs)

section \<open>What a transform sends when a file is picked\<close>

text \<open>
  C2 (as amended). For every transform invocation where a file is set, the request
  carries the file in its \<^verbatim>\<open>file\<close> field; the \<^verbatim>\<open>pasted\<close> field is sent as well, with the
  pasted text as it stands, and the \<^verbatim>\<open>model\<close> field between them. The client applies no
  precedence between the file and the pasted text.
\<close>

theorem transform_request_with_file:
  "(submissionFile s = Some f \<longrightarrow>
      reqBody (snd (start HandleTransformSubmission s))
        = FormData [(''pasted'', FormString (Msg (submissionText s))),
                    (''model'', FormString (Msg (submissionModel s))),
                    (''file'', FormFile f)]) \<and>
   (checklistFile s = Some f \<longrightarrow>
      reqBody (snd (start HandleTransformChecklist s))
        = FormData [(''pasted'', FormString (Msg (checklistText s))),
                    (''model'', FormString (Msg (checklistModel s))),
                    (''file'', FormFile f)])"
  by (simp add: handleTransformSubmission_start_def handleTransformChecklist_start_def
      buildFormData_filter js_or_def)

theorem transform_request_with_file_witness:
  "checklistFile (initial_state\<lparr>checklistText := ''abc'',
       checklistFile := Some (File ''list.csv'' ''a,b'')\<rparr>) = Some (File ''list.csv'' ''a,b'') \<and>
   reqBody (snd (start HandleTransformChecklist
     (initial_state\<lparr>checklistText := ''abc'',
        checklistFile := Some (File ''list.csv'' ''a,b'')\<rparr>)))
     = FormData [(''pasted'', FormString (Msg ''abc'')), (''model'', FormString (Msg ''gpt-4o-mini'')),
                 (''file'', FormFile (File ''list.csv'' ''a,b''))]"
  using transform_request_with_file [of
      "initial_state\<lparr>checklistText := ''abc'',
         checklistFile := Some (File ''list.csv'' ''a,b'')\<rparr>" "File ''list.csv'' ''a,b''"]
  by (simp add: initial_state_def MODELS_def)

text \<open>
  The claim as first stated has the pasted text left out of the request when a file is
  set. With the file \<^verbatim>\<open>list.csv\<close> picked and \<^verbatim>\<open>"abc"\<close> pasted, the checklist transform's
  request has the \<^verbatim>\<open>file\<close> field and the \<^verbatim>\<open>pasted\<close> field with \<^verbatim>\<open>"abc"\<close>.
\<close>

theorem pasted_sent_with_file_counterexample:
  "field ''file'' (snd (start HandleTransformChecklist
     (initial_state\<lparr>checklistText := ''abc'',
        checklistFile := Some (File ''list.csv'' ''a,b'')\<rparr>)))
     = Some (FormFile (File ''list.csv'' ''a,b'')) \<and>
   field ''pasted'' (snd (start HandleTransformChecklist
     (initial_state\<lparr>checklistText := ''abc'',
        checklistFile := Some (File ''list.csv'' ''a,b'')\<rparr>)))
     = Some (FormString (Msg ''abc''))"
  by (simp add: eval_defs)

section \<open>A successful transform stores the result as it came\<close>

text \<open>
  C3. When a transform's response has a success status and its parsed body has the
  string \<open>r\<close> as its \<^verbatim>\<open>result\<close>, the rest of the handler writes \<open>r\<close>, unchanged, into the
  stage's result cell and sets the status to \<^verbatim>\<open>Idle\<close>, and changes nothing else: for
  the submission transform and for the checklist transform.
\<close>

theorem transform_success_verbatim:
  assumes "ok res" and "jsonBody res = Inr data" and "getProp data ''result'' = Inr (JStr r)"
  shows "resume HandleTransformSubmission (Resolved res) s
           = s\<lparr>submissionResult := JStr r, status := JStr ''Idle''\<rparr> \<and>
         resume HandleTransformChecklist (Resolved res) s
           = s\<lparr>checklistResult := JStr r, status := JStr ''Idle''\<rparr>"
  using assms
  by (simp add: handleTransformSubmission_resume_def handleTransformChecklist_resume_def
      postFormData_def js_or_def)

text \<open>
  Scenario 1: \<^verbatim>\<open>"Hello"\<close> pasted, the first model selected, no file; the request has the
  fields \<^verbatim>\<open>pasted\<close> and \<^verbatim>\<open>model\<close>, the service answers 200 with
  \<^verbatim>\<open>{result: "Organized: Hello"}\<close>, and the result cell holds that text with status
  \<^verbatim>\<open>Idle\<close>.
\<close>

theorem transform_success_verbatim_witness:
  "ok (Response 200 (Inr (JObj [(''result'', JStr ''Organized: Hello'')]))) \<and>
   getProp (JObj [(''result'', JStr ''Organized: Hello'')]) ''result''
     = Inr (JStr ''Organized: Hello'') \<and>
   snd (run initial_config [SetSubmissionText ''Hello'', Click HandleTransformSubmission])
     = [(HandleTransformSubmission, Request ''/transform_submission''
          (FormData [(''pasted'', FormString (Msg ''Hello'')), (''model'', FormString (Msg ''gpt-4o-mini''))]))] \<and>
   submissionResult (fst (run initial_config
     [SetSubmissionText ''Hello'', Click HandleTransformSubmission,
      Settle 0 (Resolved (Response 200 (Inr (JObj [(''result'', JStr ''Organized: Hello'')]))))]))
     = JStr ''Organized: Hello'' \<and>
   status (fst (run initial_config
     [SetSubmissionText ''Hello'', Click HandleTransformSubmission,
      Settle 0 (Resolved (Response 200 (Inr (JObj [(''result'', JStr ''Organized: Hello'')]))))]))
     = JStr ''Idle''"
proof -
  have o: "ok (Response 200 (Inr (JObj [(''result'', JStr ''Organized: Hello'')])))"
    by (simp add: ok_def)
  have g: "getProp (JObj [(''result'', JStr ''Organized: Hello'')]) ''result''
     = Inr (JStr ''Organized: Hello'')"
    by simp
  have r: "run initial_config [SetSubmissionText ''Hello'', Click HandleTransformSubmission]
     = (initial_state\<lparr>submissionText := ''Hello'', status := JStr ''Transforming submission'',
          error := Msg []\<rparr>,
        [(HandleTransformSubmission, Request ''/transform_submission''
          (FormData [(''pasted'', FormString (Msg ''Hello'')), (''model'', FormString (Msg ''gpt-4o-mini''))]))])"
    by (simp add: initial_config_def handleTransformSubmission_start_def buildFormData_def
        js_or_def initial_state_def MODELS_def)
  have f: "run initial_config
     [SetSubmissionText ''Hello'', Click HandleTransformSubmission,
      Settle 0 (Resolved (Response 200 (Inr (JObj [(''result'', JStr ''Organized: Hello'')]))))]
     = step (Settle 0 (Resolved (Response 200 (Inr (JObj [(''result'', JStr ''Organized: Hello'')])))))
         (run initial_config [SetSubmissionText ''Hello'', Click HandleTransformSubmission])"
    by simp
  show ?thesis
    using o g transform_success_verbatim [OF o _ g, of
        "initial_state\<lparr>submissionText := ''Hello'', status := JStr ''Transforming submission'',
          error := Msg []\<rparr>"]
    unfolding f r by simp
qed

section \<open>Facts about failed calls\<close>

lemma start_url:
  "url (snd (start HandleSaveKeys s)) = ''/set_api_keys''"
  "url (snd (start HandleTransformSubmission s)) = ''/transform_submission''"
  "url (snd (start HandleTransformChecklist s)) = ''/transform_checklist''"
  "url (snd (start HandleRunReview s)) = ''/run_review''"
  by (simp_all add: handleSaveKeys_start_def handleTransformSubmission_start_def
      handleTransformChecklist_start_def handleRunReview_start_def Let_def)

lemma postFormData_fails:
  "out = Rejected e \<or> (out = Resolved res \<and> \<not> ok res) \<Longrightarrow> \<exists>x. postFormData u out = Inl x"
  by (auto simp: postFormData_def split: sum.splits)

lemma resume_thrown:
  "h \<noteq> HandleSaveKeys \<Longrightarrow> postFormData (url (snd (start h s))) out = Inl x \<Longrightarrow>
   resume h out t = onCatch x t"
  using start_url [of s]
  by (cases h)
     (simp_all add: handleTransformSubmission_resume_def
        handleTransformChecklist_resume_def handleRunReview_resume_def)

lemma start_keeps_results:
  "submissionResult (fst (start h s)) = submissionResult s"
  "checklistResult (fst (start h s)) = checklistResult s"
  "reviewResult (fst (start h s)) = reviewResult s"
  by (cases h; simp add: handleSaveKeys_start_def handleTransformSubmission_start_def
      handleTransformChecklist_start_def handleRunReview_start_def Let_def)+

lemma postFormData_unlabeled:
  "\<not> ok res \<Longrightarrow> jsonBody res = Inr data \<Longrightarrow> getProp data ''error'' = Inr JUndefined \<Longrightarrow>
   postFormData u (Resolved res) = Inl (Exn (Msg (''Request failed: '' @ u)))"
  by (simp add: postFormData_def js_or_def newError_def)

lemma postFormData_labeled:
  "\<not> ok res \<Longrightarrow> jsonBody res = Inr data \<Longrightarrow> getProp data ''error'' = Inr (JStr m) \<Longrightarrow>
   m \<noteq> [] \<Longrightarrow> postFormData u (Resolved res) = Inl (Exn (Msg m))"
  by (simp add: postFormData_def js_or_def newError_def)

section \<open>A failed stage call leaves the result cells alone\<close>

text \<open>
  C4. For each of the three stage handlers, when the call fails (the \<^verbatim>\<open>fetch\<close> is
  rejected, or the response has a status outside 200 to 299): neither the first part
  of the handler nor the rest of it changes a result cell, the status becomes
  \<^verbatim>\<open>Error\<close>, and the error cell is set to the message of the exception that
  \<^verbatim>\<open>postFormData\<close> throws. When the failed response's body is the empty object, that
  message is \<^verbatim>\<open>Request failed: \<close> followed by the endpoint's path.
\<close>

theorem failed_call_keeps_result:
  assumes "h \<noteq> HandleSaveKeys"
    and "out = Rejected e \<or> (out = Resolved res \<and> \<not> ok res)"
  shows "submissionResult (fst (start h s)) = submissionResult s \<and>
         checklistResult (fst (start h s)) = checklistResult s \<and>
         reviewResult (fst (start h s)) = reviewResult s \<and>
         submissionResult (resume h out t) = submissionResult t \<and>
         checklistResult (resume h out t) = checklistResult t \<and>
         reviewResult (resume h out t) = reviewResult t \<and>
         status (resume h out t) = JStr ''Error'' \<and>
         (\<exists>x. postFormData (url (snd (start h s))) out = Inl x \<and>
              error (resume h out t) = message x) \<and>
         (out = Resolved res \<and> jsonBody res = Inr (JObj []) \<longrightarrow>
            error (resume h out t) = Msg (''Request failed: '' @ url (snd (start h s))) \<and>
            sublist (url (snd (start h s))) (''Request failed: '' @ url (snd (start h s))))"
proof -
  from assms(2) obtain x where x: "postFormData (url (snd (start h s))) out = Inl x"
    using postFormData_fails by blast
  have r: "resume h out t = onCatch x t"
    by (rule resume_thrown [OF assms(1) x])
  have g: "error (resume h out t) = Msg (''Request failed: '' @ url (snd (start h s)))"
    if "out = Resolved res" and "jsonBody res = Inr (JObj [])"
  proof -
    from assms(2) that have "\<not> ok res" by simp
    then have "postFormData (url (snd (start h s))) (Resolved res)
        = Inl (Exn (Msg (''Request failed: '' @ url (snd (start h s)))))"
      using that(2) by (simp add: postFormData_unlabeled [of res "JObj []"])
    with x that(1) have "x = Exn (Msg (''Request failed: '' @ url (snd (start h s))))"
      by simp
    with r show ?thesis by simp
  qed
  have n: "sublist (url (snd (start h s))) (''Request failed: '' @ url (snd (start h s)))"
    by (rule sublist_append_leftI)
  have k: "submissionResult (resume h out t) = submissionResult t \<and>
      checklistResult (resume h out t) = checklistResult t \<and>
      reviewResult (resume h out t) = reviewResult t \<and>
      status (resume h out t) = JStr ''Error'' \<and> error (resume h out t) = message x"
    unfolding r by simp
  from x k g n show ?thesis
    unfolding start_keeps_results by blast
qed

text \<open>
  Scenario 3: with \<^verbatim>\<open>"old"\<close> in the submission's result cell, a transform of the
  submission answered by HTTP 500 with the body \<^verbatim>\<open>{}\<close> leaves \<^verbatim>\<open>"old"\<close> there, sets the
  status to \<^verbatim>\<open>Error\<close> and the error to \<^verbatim>\<open>Request failed: /transform_submission\<close>.
\<close>

theorem failed_call_keeps_result_witness:
  "HandleTransformSubmission \<noteq> HandleSaveKeys \<and>
   \<not> ok (Response 500 (Inr (JObj []))) \<and>
   submissionResult (fst (run (initial_state\<lparr>submissionResult := JStr ''old''\<rparr>, [])
     [Click HandleTransformSubmission, Settle 0 (Resolved (Response 500 (Inr (JObj []))))]))
     = JStr ''old'' \<and>
   status (fst (run (initial_state\<lparr>submissionResult := JStr ''old''\<rparr>, [])
     [Click HandleTransformSubmission, Settle 0 (Resolved (Response 500 (Inr (JObj []))))]))
     = JStr ''Error'' \<and>
   error (fst (run (initial_state\<lparr>submissionResult := JStr ''old''\<rparr>, [])
     [Click HandleTransformSubmission, Settle 0 (Resolved (Response 500 (Inr (JObj []))))]))
     = Msg ''Request failed: /transform_submission''"
proof -
  have n: "HandleTransformSubmission \<noteq> HandleSaveKeys" by simp
  have o: "Resolved (Response 500 (Inr (JObj []))) = Rejected (Exn (Msg [])) \<or>
      (Resolved (Response 500 (Inr (JObj []))) = Resolved (Response 500 (Inr (JObj []))) \<and>
       \<not> ok (Response 500 (Inr (JObj []))))"
    by (simp add: ok_def)
  show ?thesis
    using failed_call_keeps_result [OF n o,
        of "initial_state\<lparr>submissionResult := JStr ''old''\<rparr>"
           "fst (start HandleTransformSubmission (initial_state\<lparr>submissionResult := JStr ''old''\<rparr>))"]
    by (simp add: ok_def handleTransformSubmission_start_def buildFormData_def)
qed

section \<open>The message of a failed request\<close>

lemma getProp_readable:
  "data \<noteq> JNull \<Longrightarrow> data \<noteq> JUndefined \<Longrightarrow> \<exists>v. getProp data p = Inr v"
  by (cases data) simp_all

text \<open>
  C5 (as amended). For a request to any of the four endpoints that is answered with a
  non-success status and a JSON body, the status becomes \<^verbatim>\<open>Error\<close>, and the error cell is
  set as follows. When the body is \<^verbatim>\<open>null\<close>, reading its \<^verbatim>\<open>error\<close> throws, and the message
  is that of the \<^verbatim>\<open>TypeError\<close>. For every other body the \<^verbatim>\<open>error\<close> field is read: when it
  is truthy the message is the field (itself when it is a string, so a non-empty string
  in the \<^verbatim>\<open>error\<close> field is the message); when it is missing or falsy the message is
  generic: \<^verbatim>\<open>Request failed: \<close> followed by the endpoint's path for the three stage
  endpoints (a message that contains the path), and the fixed text
  \<^verbatim>\<open>Failed to save keys\<close> for \<^verbatim>\<open>/set_api_keys\<close>.
\<close>

theorem failed_request_message:
  assumes "\<not> ok res" and "jsonBody res = Inr data"
  shows "status (resume h (Resolved res) t) = JStr ''Error'' \<and>
         (data = JNull \<longrightarrow>
            error (resume h (Resolved res) t) = CannotRead JNull ''error'') \<and>
         (data \<noteq> JNull \<and> data \<noteq> JUndefined \<longrightarrow>
            (\<exists>v. getProp data ''error'' = Inr v \<and>
               error (resume h (Resolved res) t)
                 = (if truthy v then toMessage v
                    else Msg (if h = HandleSaveKeys then ''Failed to save keys''
                              else ''Request failed: '' @ url (snd (start h s)))))) \<and>
         (getProp data ''error'' = Inr (JStr m) \<and> m \<noteq> [] \<longrightarrow>
            error (resume h (Resolved res) t) = Msg m) \<and>
         (getProp data ''error'' = Inr JUndefined \<longrightarrow>
            error (resume h (Resolved res) t)
              = Msg (if h = HandleSaveKeys then ''Failed to save keys''
                     else ''Request failed: '' @ url (snd (start h s)))) \<and>
         (h \<noteq> HandleSaveKeys \<longrightarrow>
            sublist (url (snd (start h s))) (''Request failed: '' @ url (snd (start h s))))"
proof -
  let ?g = "if h = HandleSaveKeys then ''Failed to save keys''
            else ''Request failed: '' @ url (snd (start h s))"
  have r: "resume h (Resolved res) t
     = onCatch (case getProp data ''error'' of
                  Inl e \<Rightarrow> e | Inr v \<Rightarrow> newError (js_or v (JStr ?g))) t"
    using assms start_url [of s]
    by (cases h)
       (simp_all add: handleSaveKeys_resume_def handleTransformSubmission_resume_def
          handleTransformChecklist_resume_def handleRunReview_resume_def postFormData_def
          split: sum.splits)
  have nm: "message (newError (js_or v (JStr ?g))) = (if truthy v then toMessage v else Msg ?g)"
    for v
    by (cases v) (simp_all add: js_or_def newError_def)
  have st: "status (resume h (Resolved res) t) = JStr ''Error''"
    unfolding r by simp
  have nl: "error (resume h (Resolved res) t) = CannotRead JNull ''error''" if "data = JNull"
    unfolding r using that by simp
  have rd: "error (resume h (Resolved res) t) = (if truthy v then toMessage v else Msg ?g)"
    if "getProp data ''error'' = Inr v" for v
    unfolding r using that nm [of v] by simp
  have ex: "\<exists>v. getProp data ''error'' = Inr v \<and>
      error (resume h (Resolved res) t) = (if truthy v then toMessage v else Msg ?g)"
    if "data \<noteq> JNull \<and> data \<noteq> JUndefined"
  proof -
    from that obtain v where "getProp data ''error'' = Inr v"
      using getProp_readable by blast
    with rd show ?thesis by blast
  qed
  have lb: "error (resume h (Resolved res) t) = Msg m"
    if "getProp data ''error'' = Inr (JStr m) \<and> m \<noteq> []"
    using rd [of "JStr m"] that by simp
  have ul: "error (resume h (Resolved res) t) = Msg ?g"
    if "getProp data ''error'' = Inr JUndefined"
    using rd [of JUndefined] that by simp
  have sl: "sublist (url (snd (start h s))) (''Request failed: '' @ url (snd (start h s)))"
    by (rule sublist_append_leftI)
  from st nl ex lb ul sl show ?thesis by blast
qed

text \<open>
  A review answered by HTTP 400 with \<^verbatim>\<open>{error: "model not allowed"}\<close> shows that
  message; answered by HTTP 500 with \<^verbatim>\<open>{}\<close> it shows \<^verbatim>\<open>Request failed: /run_review\<close>.
\<close>

theorem failed_request_message_witness:
  "\<not> ok (Response 400 (Inr (JObj [(''error'', JStr ''model not allowed'')]))) \<and>
   getProp (JObj [(''error'', JStr ''model not allowed'')]) ''error''
     = Inr (JStr ''model not allowed'') \<and>
   error (resume HandleRunReview
     (Resolved (Response 400 (Inr (JObj [(''error'', JStr ''model not allowed'')]))))
     initial_state) = Msg ''model not allowed'' \<and>
   \<not> ok (Response 500 (Inr (JObj []))) \<and>
   getProp (JObj []) ''error'' = Inr JUndefined \<and>
   error (resume HandleRunReview (Resolved (Response 500 (Inr (JObj [])))) initial_state)
     = Msg ''Request failed: /run_review'' \<and>
   status (resume HandleRunReview (Resolved (Response 500 (Inr (JObj [])))) initial_state)
     = JStr ''Error'' \<and>
   sublist ''/run_review'' ''Request failed: /run_review''"
proof -
  have a: "\<not> ok (Response 400 (Inr (JObj [(''error'', JStr ''model not allowed'')])))"
    and b: "\<not> ok (Response 500 (Inr (JObj [])))"
    by (simp_all add: ok_def)
  have u: "url (snd (start HandleRunReview initial_state)) = ''/run_review''"
    by (rule start_url)
  show ?thesis
    using a b
      failed_request_message [OF a, of "JObj [(''error'', JStr ''model not allowed'')]"
        HandleRunReview initial_state initial_state "''model not allowed''"]
      failed_request_message [OF b, of "JObj []" HandleRunReview initial_state initial_state "[]"]
    unfolding u by simp
qed

text \<open>
  The claim as first stated has the generic message name the endpoint for all four
  endpoints, whenever the \<^verbatim>\<open>error\<close> field is missing. A save of the keys answered by
  HTTP 500 with \<^verbatim>\<open>{}\<close> sets the error to \<^verbatim>\<open>Failed to save keys\<close>, which contains neither
  the path \<^verbatim>\<open>/set_api_keys\<close> nor the name \<^verbatim>\<open>set_api_keys\<close>. A transform answered by HTTP
  500 with the body \<^verbatim>\<open>null\<close>, which has no \<^verbatim>\<open>error\<close> field, sets the error to the message
  of the \<^verbatim>\<open>TypeError\<close> of reading \<^verbatim>\<open>error\<close> of \<^verbatim>\<open>null\<close>.
\<close>

theorem save_keys_generic_message_counterexample:
  "\<not> ok (Response 500 (Inr (JObj []))) \<and>
   error (resume HandleSaveKeys (Resolved (Response 500 (Inr (JObj [])))) initial_state)
     = Msg ''Failed to save keys'' \<and>
   \<not> sublist ''/set_api_keys'' ''Failed to save keys'' \<and>
   \<not> sublist ''set_api_keys'' ''Failed to save keys'' \<and>
   error (resume HandleTransformSubmission (Resolved (Response 500 (Inr JNull))) initial_state)
     = CannotRead JNull ''error''"
proof -
  have "\<not> sublist ''/set_api_keys'' ''Failed to save keys''"
    by (simp add: sublist_Cons_right)
  moreover have "\<not> sublist ''set_api_keys'' ''Failed to save keys''"
    by (simp add: sublist_Cons_right)
  ultimately show ?thesis
    by (simp add: handleSaveKeys_resume_def handleTransformSubmission_resume_def
        postFormData_def ok_def js_or_def newError_def)
qed

section \<open>Fields without a value are left out of a request\<close>

lemma start_members_defined:
  "list_all (\<lambda>(k, v). \<not> nullish v) (jsonMembers (reqBody (snd (start h s))))"
  by (cases h)
     (simp_all add: handleSaveKeys_start_def handleTransformSubmission_start_def
        handleTransformChecklist_start_def handleRunReview_start_def Let_def
        buildFormData_filter JSON_stringify_def js_or_def nullish_def)

lemma buildFormData_entries_defined:
  "list_all (\<lambda>(k, e). \<exists>v. \<not> nullish v \<and> e = formValue v) (formEntries (buildFormData obj))"
  by (auto simp: buildFormData_filter list_all_iff nullish_def)

lemma start_entries_defined:
  "list_all (\<lambda>(k, e). \<exists>v. \<not> nullish v \<and> e = formValue v)
     (formEntries (reqBody (snd (start h s))))"
  using buildFormData_entries_defined
  by (cases h)
     (simp_all add: handleSaveKeys_start_def handleTransformSubmission_start_def
        handleTransformChecklist_start_def handleRunReview_start_def Let_def
        JSON_stringify_def)

text \<open>
  C6. \<^verbatim>\<open>buildFormData\<close> keeps, in order, exactly the fields whose value is neither
  \<^verbatim>\<open>undefined\<close> nor \<^verbatim>\<open>null\<close>, each with what \<^verbatim>\<open>append\<close> makes of its value. So the request
  of a transform has the fields \<^verbatim>\<open>pasted\<close> and \<^verbatim>\<open>model\<close>, and the field \<^verbatim>\<open>file\<close> only when
  a file is picked; the request of a review has those of \<^verbatim>\<open>submission\<close>, \<^verbatim>\<open>checklist\<close>
  and \<^verbatim>\<open>model\<close> whose value is not nullish. Every form field of every request holds
  what \<^verbatim>\<open>append\<close> makes of a value that is not nullish, the JSON body of no request has a
  member that is \<^verbatim>\<open>undefined\<close> or \<^verbatim>\<open>null\<close>, and the JSON body of \<^verbatim>\<open>/set_api_keys\<close> has the
  member \<^verbatim>\<open>openai\<close> only when the OpenAI key is not empty and the member \<^verbatim>\<open>gemini\<close> only
  when the Gemini key is not empty.
\<close>

theorem absent_fields_omitted:
  "buildFormData obj
     = FormData (map (\<lambda>(k, v). (k, formValue v)) (filter (\<lambda>(k, v). \<not> nullish v) obj)) \<and>
   reqBody (snd (start HandleTransformSubmission s))
     = FormData ([(''pasted'', FormString (Msg (submissionText s))),
                  (''model'', FormString (Msg (submissionModel s)))] @
                 (case submissionFile s of None \<Rightarrow> [] | Some f \<Rightarrow> [(''file'', FormFile f)])) \<and>
   reqBody (snd (start HandleTransformChecklist s))
     = FormData ([(''pasted'', FormString (Msg (checklistText s))),
                  (''model'', FormString (Msg (checklistModel s)))] @
                 (case checklistFile s of None \<Rightarrow> [] | Some f \<Rightarrow> [(''file'', FormFile f)])) \<and>
   reqBody (snd (start HandleRunReview s))
     = FormData (map (\<lambda>(k, v). (k, formValue v)) (filter (\<lambda>(k, v). \<not> nullish v)
         [(''submission'', if reviewSubmission s \<noteq> [] then JStr (reviewSubmission s)
                           else submissionResult s),
          (''checklist'', if reviewChecklist s \<noteq> [] then JStr (reviewChecklist s)
                          else checklistResult s),
          (''model'', JStr (reviewModel s))])) \<and>
   list_all (\<lambda>(k, e). \<exists>v. \<not> nullish v \<and> e = formValue v)
     (formEntries (reqBody (snd (start h s)))) \<and>
   list_all (\<lambda>(k, v). \<not> nullish v) (jsonMembers (reqBody (snd (start h s)))) \<and>
   reqBody (snd (start HandleSaveKeys s))
     = JsonBody ((if openaiKey s = [] then [] else [(''openai'', JStr (openaiKey s))]) @
                 (if geminiKey s = [] then [] else [(''gemini'', JStr (geminiKey s))]))"
proof (intro conjI)
  show "buildFormData obj
     = FormData (map (\<lambda>(k, v). (k, formValue v)) (filter (\<lambda>(k, v). \<not> nullish v) obj))"
    by (simp add: buildFormData_filter nullish_def)
  show "reqBody (snd (start HandleTransformSubmission s))
     = FormData ([(''pasted'', FormString (Msg (submissionText s))),
                  (''model'', FormString (Msg (submissionModel s)))] @
                 (case submissionFile s of None \<Rightarrow> [] | Some f \<Rightarrow> [(''file'', FormFile f)]))"
    by (cases "submissionFile s")
       (simp_all add: handleTransformSubmission_start_def buildFormData_filter js_or_def)
  show "reqBody (snd (start HandleTransformChecklist s))
     = FormData ([(''pasted'', FormString (Msg (checklistText s))),
                  (''model'', FormString (Msg (checklistModel s)))] @
                 (case checklistFile s of None \<Rightarrow> [] | Some f \<Rightarrow> [(''file'', FormFile f)]))"
    by (cases "checklistFile s")
       (simp_all add: handleTransformChecklist_start_def buildFormData_filter js_or_def)
  show "reqBody (snd (start HandleRunReview s))
     = FormData (map (\<lambda>(k, v). (k, formValue v)) (filter (\<lambda>(k, v). \<not> nullish v)
         [(''submission'', if reviewSubmission s \<noteq> [] then JStr (reviewSubmission s)
                           else submissionResult s),
          (''checklist'', if reviewChecklist s \<noteq> [] then JStr (reviewChecklist s)
                          else checklistResult s),
          (''model'', JStr (reviewModel s))]))"
    by (simp add: handleRunReview_start_def Let_def buildFormData_filter js_or_def nullish_def)
  show "list_all (\<lambda>(k, e). \<exists>v. \<not> nullish v \<and> e = formValue v)
     (formEntries (reqBody (snd (start h s))))"
    by (rule start_entries_defined)
  show "list_all (\<lambda>(k, v). \<not> nullish v) (jsonMembers (reqBody (snd (start h s))))"
    by (rule start_members_defined)
  show "reqBody (snd (start HandleSaveKeys s))
     = JsonBody ((if openaiKey s = [] then [] else [(''openai'', JStr (openaiKey s))]) @
                 (if geminiKey s = [] then [] else [(''gemini'', JStr (geminiKey s))]))"
    by (simp add: handleSaveKeys_start_def JSON_stringify_def js_or_def)
qed

text \<open>
  Scenario 5: with only the OpenAI key typed in, the body of the request to
  \<^verbatim>\<open>/set_api_keys\<close> has the one member \<^verbatim>\<open>openai\<close> and no \<^verbatim>\<open>gemini\<close>. A transform with
  nothing pasted and no file picked sends the empty \<^verbatim>\<open>pasted\<close> text and no \<^verbatim>\<open>file\<close>.
\<close>

theorem absent_fields_omitted_witness:
  "run initial_config [SetOpenaiKey ''sk-1'', Click HandleSaveKeys]
     = (initial_state\<lparr>openaiKey := ''sk-1'', status := JStr ''Saving keys'', error := Msg []\<rparr>,
        [(HandleSaveKeys, Request ''/set_api_keys'' (JsonBody [(''openai'', JStr ''sk-1'')]))]) \<and>
   jsonMember ''gemini'' (snd (start HandleSaveKeys (initial_state\<lparr>openaiKey := ''sk-1''\<rparr>)))
     = None \<and>
   buildFormData [(''pasted'', JStr []), (''model'', JStr ''gpt-4o-mini''), (''file'', JUndefined)]
     = FormData [(''pasted'', FormString (Msg [])), (''model'', FormString (Msg ''gpt-4o-mini''))] \<and>
   reqBody (snd (start HandleTransformSubmission initial_state))
     = FormData [(''pasted'', FormString (Msg [])), (''model'', FormString (Msg ''gpt-4o-mini''))]"
proof -
  have u: "url (snd (start HandleSaveKeys (initial_state\<lparr>openaiKey := ''sk-1''\<rparr>)))
      = ''/set_api_keys''"
    by (rule start_url)
  have b: "reqBody (snd (start HandleSaveKeys (initial_state\<lparr>openaiKey := ''sk-1''\<rparr>)))
      = JsonBody [(''openai'', JStr ''sk-1'')]"
    using absent_fields_omitted [of "[]" "initial_state\<lparr>openaiKey := ''sk-1''\<rparr>" HandleSaveKeys]
    by (simp add: initial_state_def)
  have r: "snd (start HandleSaveKeys (initial_state\<lparr>openaiKey := ''sk-1''\<rparr>))
      = Request ''/set_api_keys'' (JsonBody [(''openai'', JStr ''sk-1'')])"
    using u b by (cases "snd (start HandleSaveKeys (initial_state\<lparr>openaiKey := ''sk-1''\<rparr>))") simp
  have f: "fst (start HandleSaveKeys (initial_state\<lparr>openaiKey := ''sk-1''\<rparr>))
      = initial_state\<lparr>openaiKey := ''sk-1'', status := JStr ''Saving keys'', error := Msg []\<rparr>"
    by (simp add: handleSaveKeys_start_def)
  have "buildFormData [(''pasted'', JStr []), (''model'', JStr ''gpt-4o-mini''), (''file'', JUndefined)]
     = FormData [(''pasted'', FormString (Msg [])), (''model'', FormString (Msg ''gpt-4o-mini''))] \<and>
     reqBody (snd (start HandleTransformSubmission initial_state))
     = FormData [(''pasted'', FormString (Msg [])), (''model'', FormString (Msg ''gpt-4o-mini''))]"
    using absent_fields_omitted [of
        "[(''pasted'', JStr []), (''model'', JStr ''gpt-4o-mini''), (''file'', JUndefined)]"
        initial_state HandleSaveKeys]
    by (simp add: nullish_def initial_state_def MODELS_def)
  then show ?thesis
    using r f by (simp add: initial_config_def jsonMember_def)
qed

section \<open>The body is parsed before the status is looked at\<close>

text \<open>
  C9. For each of the four handlers and every status code, success or not: when the
  response's body does not parse as JSON, the exception of \<^verbatim>\<open>res.json()\<close> is the one
  that is caught, so the error cell is set to the parse error's message and the status
  to \<^verbatim>\<open>Error\<close>, and nothing else changes; \<^verbatim>\<open>postFormData\<close> throws that same exception,
  not the service's message and not the generic one.
\<close>

theorem parse_error_before_status:
  "resume h (Resolved (Response code (Inl e))) s
     = s\<lparr>error := message e, status := JStr ''Error''\<rparr> \<and>
   postFormData u (Resolved (Response code (Inl e))) = Inl e"
  by (cases h)
     (simp_all add: handleSaveKeys_resume_def handleTransformSubmission_resume_def
        handleTransformChecklist_resume_def handleRunReview_resume_def postFormData_def
        onCatch_def)

text \<open>
  A save of the keys answered by HTTP 502 with an HTML page shows the parse error, as a
  transform of the submission does.
\<close>

theorem parse_error_before_status_witness:
  "\<not> ok (Response 502 (Inl (Exn (Msg ''Unexpected token < in JSON at position 0'')))) \<and>
   error (resume HandleSaveKeys
     (Resolved (Response 502 (Inl (Exn (Msg ''Unexpected token < in JSON at position 0'')))))
     initial_state) = Msg ''Unexpected token < in JSON at position 0'' \<and>
   error (resume HandleTransformSubmission
     (Resolved (Response 502 (Inl (Exn (Msg ''Unexpected token < in JSON at position 0'')))))
     initial_state) = Msg ''Unexpected token < in JSON at position 0'' \<and>
   postFormData ''/transform_submission''
     (Resolved (Response 502 (Inl (Exn (Msg ''Unexpected token < in JSON at position 0'')))))
     = Inl (Exn (Msg ''Unexpected token < in JSON at position 0''))"
  using parse_error_before_status [of HandleSaveKeys 502
      "Exn (Msg ''Unexpected token < in JSON at position 0'')" initial_state
      "''/transform_submission''"]
    parse_error_before_status [of HandleTransformSubmission 502
      "Exn (Msg ''Unexpected token < in JSON at position 0'')" initial_state
      "''/transform_submission''"]
  by (simp add: ok_def)

section \<open>What a successful call stores when the result is missing or not a string\<close>

text \<open>
  C10 (as amended). For each of the three stage handlers, when the response has a
  success status and a JSON body of which \<^verbatim>\<open>result\<close> can be read (any JSON value but
  \<^verbatim>\<open>null\<close>): the stage's result cell is set to the \<^verbatim>\<open>result\<close> as it is when that is
  truthy, and to the empty string when it is missing or falsy, and the status is set to
  \<^verbatim>\<open>Idle\<close>. So after a successful completion the cell is never \<^verbatim>\<open>undefined\<close> or \<^verbatim>\<open>null\<close>,
  and it is a string whenever the \<^verbatim>\<open>result\<close> is a string or falsy.
\<close>

theorem success_result_default:
  assumes "ok res" and "jsonBody res = Inr data" and "getProp data ''result'' = Inr v"
  shows "resume HandleTransformSubmission (Resolved res) s
           = s\<lparr>submissionResult := (if truthy v then v else JStr []), status := JStr ''Idle''\<rparr> \<and>
         resume HandleTransformChecklist (Resolved res) s
           = s\<lparr>checklistResult := (if truthy v then v else JStr []), status := JStr ''Idle''\<rparr> \<and>
         resume HandleRunReview (Resolved res) s
           = s\<lparr>reviewResult := (if truthy v then v else JStr []), status := JStr ''Idle''\<rparr> \<and>
         \<not> nullish (if truthy v then v else JStr [])"
  using assms js_or_str_defined [of v "[]"]
  by (simp add: handleTransformSubmission_resume_def handleTransformChecklist_resume_def
      handleRunReview_resume_def postFormData_def js_or_def)

text \<open>
  A review answered by HTTP 200 with \<^verbatim>\<open>{}\<close>, or with \<^verbatim>\<open>{result: null}\<close>, stores the
  empty string over the earlier result.
\<close>

theorem success_result_default_witness:
  "ok (Response 200 (Inr (JObj []))) \<and>
   getProp (JObj []) ''result'' = Inr JUndefined \<and>
   reviewResult (resume HandleRunReview (Resolved (Response 200 (Inr (JObj []))))
     (initial_state\<lparr>reviewResult := JStr ''old''\<rparr>)) = JStr [] \<and>
   getProp (JObj [(''result'', JNull)]) ''result'' = Inr JNull \<and>
   reviewResult (resume HandleRunReview (Resolved (Response 200 (Inr (JObj [(''result'', JNull)]))))
     (initial_state\<lparr>reviewResult := JStr ''old''\<rparr>)) = JStr []"
proof -
  have o: "ok (Response 200 b)" for b
    by (simp add: ok_def)
  have g: "getProp (JObj []) ''result'' = Inr JUndefined"
    and n: "getProp (JObj [(''result'', JNull)]) ''result'' = Inr JNull"
    by simp_all
  show ?thesis
    using o g n
      success_result_default [OF o _ g, of "Inr (JObj [])"
        "initial_state\<lparr>reviewResult := JStr ''old''\<rparr>"]
      success_result_default [OF o _ n, of "Inr (JObj [(''result'', JNull)])"
        "initial_state\<lparr>reviewResult := JStr ''old''\<rparr>"]
    by simp
qed

text \<open>
  The claim as first stated has the result cell hold a string after every successful
  completion, and the empty string whenever a success body lacks a \<^verbatim>\<open>result\<close>. A
  transform answered by HTTP 200 with \<^verbatim>\<open>{result: 42}\<close> stores the number 42 and ends
  \<^verbatim>\<open>Idle\<close>; answered by HTTP 200 with the body \<^verbatim>\<open>null\<close> it throws on reading the
  \<^verbatim>\<open>result\<close>, keeps the earlier result and ends in \<^verbatim>\<open>Error\<close>.
\<close>

theorem success_result_not_string_counterexample:
  "ok (Response 200 (Inr (JObj [(''result'', JNum 42)]))) \<and>
   submissionResult (resume HandleTransformSubmission
     (Resolved (Response 200 (Inr (JObj [(''result'', JNum 42)]))))
     (initial_state\<lparr>submissionResult := JStr ''old''\<rparr>)) = JNum 42 \<and>
   status (resume HandleTransformSubmission
     (Resolved (Response 200 (Inr (JObj [(''result'', JNum 42)]))))
     (initial_state\<lparr>submissionResult := JStr ''old''\<rparr>)) = JStr ''Idle'' \<and>
   submissionResult (resume HandleTransformSubmission (Resolved (Response 200 (Inr JNull)))
     (initial_state\<lparr>submissionResult := JStr ''old''\<rparr>)) = JStr ''old'' \<and>
   status (resume HandleTransformSubmission (Resolved (Response 200 (Inr JNull)))
     (initial_state\<lparr>submissionResult := JStr ''old''\<rparr>)) = JStr ''Error''"
  by (simp add: handleTransformSubmission_resume_def postFormData_def ok_def js_or_def)

section \<open>The status over sequences of events\<close>










section \<open>The same stage started twice\<close>










end
